theory Spec2Isabelle
  imports Main "HOL-Library.Word"
begin

section \<open>Python values\<close>

text \<open>
  A Python \<open>str\<close> is a sequence of Unicode code points, so it is modelled as a list of
  code points (natural numbers), never as a list of bytes. \<open>py\<close> turns an ASCII literal
  into such a sequence.
\<close>

type_synonym codepoint = nat
type_synonym pystr = "codepoint list"

definition py :: "string \<Rightarrow> pystr" where
  "py s = map of_char s"

text \<open>
  The values a configuration can hold: what \<open>yaml.safe_load\<close> returns for scalars,
  sequences and mappings. A float is carried as its 64-bit pattern; the program never
  computes with it. Dictionary keys are strings or, as an example of a key that is not a
  string, integers. Values are data; the one object whose identity matters, the mapping
  that serves as the instance namespace, is tracked in the \<open>Config\<close> record.
\<close>

datatype pykey = KStr pystr | KInt int

datatype pyval =
    PNone
  | PBool bool
  | PInt int
  | PFloat "64 word"
  | PStr pystr
  | PList "pyval list"
  | PDict "(pykey \<times> pyval) list"

datatype exn = KeyError | AttributeError | TypeError | OSError

section \<open>The built-in dict\<close>

text \<open>
  A dict keeps its entries in insertion order and holds each key once: an association
  list whose keys are distinct. Assigning to a key that is present overwrites the value in
  its slot; assigning to a new key appends a slot; deleting a key that is absent raises
  \<open>KeyError\<close>.
\<close>

type_synonym ('k, 'v) pydict = "('k \<times> 'v) list"

fun dict_setitem :: "('k, 'v) pydict \<Rightarrow> 'k \<Rightarrow> 'v \<Rightarrow> ('k, 'v) pydict" where
  "dict_setitem [] k v = [(k, v)]"
| "dict_setitem ((k', v') # d) k v =
     (if k' = k then (k', v) # d else (k', v') # dict_setitem d k v)"

fun dict_remove :: "('k, 'v) pydict \<Rightarrow> 'k \<Rightarrow> ('k, 'v) pydict" where
  "dict_remove [] k = []"
| "dict_remove ((k', v') # d) k = (if k' = k then d else (k', v') # dict_remove d k)"

definition dict_contains :: "('k, 'v) pydict \<Rightarrow> 'k \<Rightarrow> bool" where
  "dict_contains d k = (map_of d k \<noteq> None)"

definition dict_delitem :: "('k, 'v) pydict \<Rightarrow> 'k \<Rightarrow> exn + ('k, 'v) pydict" where
  "dict_delitem d k = (if dict_contains d k then Inr (dict_remove d k) else Inl KeyError)"

text \<open>\<open>dict.update(other)\<close> and a dict comprehension both insert item after item.\<close>

fun dict_update :: "('k, 'v) pydict \<Rightarrow> ('k \<times> 'v) list \<Rightarrow> ('k, 'v) pydict" where
  "dict_update d [] = d"
| "dict_update d ((k, v) # other) = dict_update (dict_setitem d k v) other"

section \<open>The value transform\<close>

text \<open>
  \<open>value[::-1]\<close>: the slice with step \<open>-1\<close> and default bounds reads the indices
  \<open>len - 1\<close>, \<open>len - 2\<close>, ..., \<open>0\<close>, one code point each.
\<close>

fun slice_back :: "'a list \<Rightarrow> nat \<Rightarrow> 'a list" where
  "slice_back xs 0 = []"
| "slice_back xs (Suc i) = xs ! i # slice_back xs i"

definition mangle :: "pystr \<Rightarrow> pystr" where
  "mangle v = slice_back v (length v)"

definition unmangle :: "pystr \<Rightarrow> pystr" where
  "unmangle v = slice_back v (length v)"

section \<open>The Config class\<close>

text \<open>
  \<open>Config\<close> subclasses \<open>dict\<close>, so an instance has the dict's entries and, as every
  instance of a Python class, a namespace of instance attributes. A method such as
  \<open>items\<close> or \<open>_mangle\<close> lives in the class; an instance attribute of the same name
  shadows it, and calling the value found there raises \<open>TypeError\<close>, since no value of
  \<open>pyval\<close> is callable.

  The namespace is a dict of the instance's own, until a mapping is assigned to the
  attribute \<open>__dict__\<close>: then that very mapping object is the namespace. The only
  \<open>setattr\<close> of the program is the one of \<open>__setitem__\<close>, which has just stored the same
  object in the dict, so the entry and the namespace are one object from then on, and
  every later store or delete of an attribute changes the value of that entry too.
  \<open>shared\<close> is the key of that entry, if there is one; \<open>attrs\<close> always lists the items
  of the namespace whose key is a string. An object that a caller hands to
  \<open>__setitem__\<close> is taken to be held nowhere else in the store.
\<close>

record Config =
  entries :: "(pykey, pyval) pydict"
  attrs :: "(pystr, pyval) pydict"
  shared :: "pykey option"

definition bound_method :: "Config \<Rightarrow> pystr \<Rightarrow> exn option" where
  "bound_method c name = (if dict_contains (attrs c) name then Some TypeError else None)"

text \<open>
  \<open>re.sub(r'\s+', '_', key)\<close>: every maximal run of whitespace becomes one underscore.
  For a \<open>str\<close> pattern \<open>\s\<close> is Unicode whitespace, the code points below.
\<close>

definition isspace :: "codepoint \<Rightarrow> bool" where
  "isspace c =
     ((9 \<le> c \<and> c \<le> 13) \<or> (28 \<le> c \<and> c \<le> 32) \<or> c = 133 \<or> c = 160 \<or> c = 5760
      \<or> (8192 \<le> c \<and> c \<le> 8202) \<or> c = 8232 \<or> c = 8233 \<or> c = 8239 \<or> c = 8287
      \<or> c = 12288)"

function sub_spaces :: "pystr \<Rightarrow> pystr" where
  "sub_spaces [] = []"
| "sub_spaces (c # cs) =
     (if isspace c then 95 # sub_spaces (dropWhile isspace cs) else c # sub_spaces cs)"
  by pat_completeness auto
termination
  by (relation "measure length") (auto simp: length_dropWhile_le less_Suc_eq_le)

text \<open>
  A change of the namespace object, seen from the dict: when the namespace is the
  mapping stored under the key \<open>shared\<close>, that entry's value changes with it.
\<close>

fun rewrite_entry ::
  "(pykey, pyval) pydict \<Rightarrow> pykey \<Rightarrow> ((pykey \<times> pyval) list \<Rightarrow> (pykey \<times> pyval) list)
     \<Rightarrow> (pykey, pyval) pydict" where
  "rewrite_entry [] K f = []"
| "rewrite_entry ((k, PDict m) # d) K f =
     (if k = K then (k, PDict (f m)) # d else (k, PDict m) # rewrite_entry d K f)"
| "rewrite_entry ((k, v) # d) K f = (k, v) # rewrite_entry d K f"

definition write_through ::
  "Config \<Rightarrow> ((pykey \<times> pyval) list \<Rightarrow> (pykey \<times> pyval) list) \<Rightarrow> (pykey, pyval) pydict" where
  "write_through c f =
     (case shared c of None \<Rightarrow> entries c | Some K \<Rightarrow> rewrite_entry (entries c) K f)"

text \<open>
  \<open>setattr\<close> and \<open>delattr\<close> on an instance. Three names are not plain items of the
  namespace: \<open>__class__\<close> accepts a class only, \<open>__weakref__\<close> is read-only, and
  \<open>__dict__\<close> is the namespace itself: assigning a mapping makes that object the
  namespace (\<open>key\<close> says under which key \<open>__setitem__\<close> has just stored it), deleting it
  leaves the instance with a new, empty namespace. \<open>delattr\<close> of a name that is not a
  string raises \<open>TypeError\<close>, of a name that is not an instance attribute
  \<open>AttributeError\<close>.
\<close>

fun str_items :: "(pykey \<times> pyval) list \<Rightarrow> (pystr, pyval) pydict" where
  "str_items [] = []"
| "str_items ((KStr s, v) # m) = (s, v) # str_items m"
| "str_items ((KInt i, v) # m) = str_items m"

definition setattr :: "Config \<Rightarrow> pystr \<Rightarrow> pykey \<Rightarrow> pyval \<Rightarrow> Config \<times> exn option" where
  "setattr c name key v =
     (if name = py ''__class__'' then (c, Some TypeError)
      else if name = py ''__weakref__'' then (c, Some AttributeError)
      else if name = py ''__dict__'' then
        (case v of
           PDict m \<Rightarrow> (c\<lparr>attrs := str_items m, shared := Some key\<rparr>, None)
         | _ \<Rightarrow> (c, Some TypeError))
      else (c\<lparr>attrs := dict_setitem (attrs c) name v,
               entries := write_through c (\<lambda>m. dict_setitem m (KStr name) v)\<rparr>, None))"

definition delattr :: "Config \<Rightarrow> pykey \<Rightarrow> Config \<times> exn option" where
  "delattr c key =
     (case key of
        KInt i \<Rightarrow> (c, Some TypeError)
      | KStr name \<Rightarrow>
          if name = py ''__class__'' then (c, Some TypeError)
          else if name = py ''__weakref__'' then (c, Some AttributeError)
          else if name = py ''__dict__'' then (c\<lparr>attrs := [], shared := None\<rparr>, None)
          else (case dict_delitem (attrs c) name of
                  Inl e \<Rightarrow> (c, Some AttributeError)
                | Inr a \<Rightarrow>
                    (c\<lparr>attrs := a,
                       entries := write_through c (\<lambda>m. dict_remove m (KStr name))\<rparr>, None)))"

text \<open>
  \<open>__setitem__\<close> and \<open>__delitem__\<close>. Both change the dict first and touch the
  attributes afterwards, so an exception of the second statement leaves the first one
  done: the result is the object as it is afterwards, and the exception raised, if any.
  Overwriting or deleting the entry that holds the namespace object takes that object
  out of the dict; it stays the namespace.
\<close>

definition unshare :: "Config \<Rightarrow> pykey \<Rightarrow> pykey option" where
  "unshare c key = (if shared c = Some key then None else shared c)"

definition setitem :: "Config \<Rightarrow> pykey \<Rightarrow> pyval \<Rightarrow> Config \<times> exn option" where
  "setitem c key v =
     (let c' = c\<lparr>entries := dict_setitem (entries c) key v, shared := unshare c key\<rparr>
      in case key of KStr s \<Rightarrow> setattr c' (sub_spaces s) key v | KInt i \<Rightarrow> (c', None))"

definition delitem :: "Config \<Rightarrow> pykey \<Rightarrow> Config \<times> exn option" where
  "delitem c key =
     (case dict_delitem (entries c) key of
        Inl e \<Rightarrow> (c, Some e)
      | Inr d \<Rightarrow> delattr (c\<lparr>entries := d, shared := unshare c key\<rparr>) key)"

text \<open>\<open>__init__\<close>: the dict is filled, then every item is assigned to itself.\<close>

fun setitems :: "Config \<Rightarrow> (pykey \<times> pyval) list \<Rightarrow> Config \<times> exn option" where
  "setitems c [] = (c, None)"
| "setitems c ((k, v) # rest) =
     (case setitem c k v of
        (c', Some e) \<Rightarrow> (c', Some e)
      | (c', None) \<Rightarrow> setitems c' rest)"

definition Config_init :: "(pykey, pyval) pydict \<Rightarrow> Config \<times> exn option" where
  "Config_init d = setitems \<lparr>entries = d, attrs = [], shared = None\<rparr> d"

section \<open>Files\<close>

text \<open>
  \<open>yaml.dump({key: value}, file)\<close> writes one block for the single entry, and the blocks
  written one after the other read back as one mapping. A file is modelled by the blocks
  it holds, each the key and the value that was handed to \<open>yaml.dump\<close>: the YAML text
  and its parser are the library's, not this program's. \<open>yaml.safe_load\<close> of a file
  with no block is \<open>None\<close>; otherwise it is the dict built from the blocks in order.
  Opening a file for writing can be refused (\<open>open_denied\<close>) and truncates it
  otherwise; opening a file that does not exist for reading raises.

  Not represented: what the library does to a value on its way through the text (it
  writes the keys of a nested mapping in sorted order and every NaN as \<open>.nan\<close>), and a
  write that fails after the file was opened. Every statement below that reads back
  what a save has written is about flat values (no float, no container) only.
\<close>

type_synonym yaml_doc = "(pykey \<times> pyval) list"

record filesys =
  contents :: "pystr \<Rightarrow> yaml_doc option"
  open_denied :: "pystr \<Rightarrow> bool"

definition open_w :: "filesys \<Rightarrow> pystr \<Rightarrow> exn + filesys" where
  "open_w fs path =
     (if open_denied fs path then Inl OSError
      else Inr (fs\<lparr>contents := (contents fs)(path \<mapsto> [])\<rparr>))"

definition open_r :: "filesys \<Rightarrow> pystr \<Rightarrow> exn + yaml_doc" where
  "open_r fs path = (case contents fs path of None \<Rightarrow> Inl OSError | Some doc \<Rightarrow> Inr doc)"

definition yaml_dump :: "filesys \<Rightarrow> pystr \<Rightarrow> pykey \<Rightarrow> pyval \<Rightarrow> filesys" where
  "yaml_dump fs path k v =
     fs\<lparr>contents := (contents fs)(path \<mapsto> (case contents fs path of None \<Rightarrow> [] | Some doc \<Rightarrow> doc) @ [(k, v)])\<rparr>"

definition yaml_safe_load :: "yaml_doc \<Rightarrow> (pykey, pyval) pydict option" where
  "yaml_safe_load doc = (if doc = [] then None else Some (dict_update [] doc))"

text \<open>
  \<open>Config.save\<close>: the file is opened, \<open>self.items()\<close> is called, and every item is
  dumped, a string value through \<open>self._mangle\<close>.
\<close>

fun save_items :: "Config \<Rightarrow> filesys \<Rightarrow> pystr \<Rightarrow> (pykey \<times> pyval) list \<Rightarrow> filesys \<times> exn option" where
  "save_items c fs path [] = (fs, None)"
| "save_items c fs path ((key, PStr s) # rest) =
     (case bound_method c (py ''_mangle'') of
        Some e \<Rightarrow> (fs, Some e)
      | None \<Rightarrow> save_items c (yaml_dump fs path key (PStr (mangle s))) path rest)"
| "save_items c fs path ((key, v) # rest) =
     save_items c (yaml_dump fs path key v) path rest"

definition save :: "Config \<Rightarrow> filesys \<Rightarrow> pystr \<Rightarrow> filesys \<times> exn option" where
  "save c fs path =
     (case open_w fs path of
        Inl e \<Rightarrow> (fs, Some e)
      | Inr fs' \<Rightarrow>
          (case bound_method c (py ''items'') of
             Some e \<Rightarrow> (fs', Some e)
           | None \<Rightarrow> save_items c fs' path (entries c)))"

text \<open>
  \<open>Config.load\<close>: a fresh \<open>Config\<close>, then every item of the loaded mapping is assigned,
  a string value through \<open>cfg._unmangle\<close>. \<open>data.items()\<close> on \<open>None\<close> raises
  \<open>AttributeError\<close>. An exception loses the object under construction.
\<close>

fun load_items :: "Config \<Rightarrow> (pykey \<times> pyval) list \<Rightarrow> exn + Config" where
  "load_items cfg [] = Inr cfg"
| "load_items cfg ((key, PStr s) # rest) =
     (case bound_method cfg (py ''_unmangle'') of
        Some e \<Rightarrow> Inl e
      | None \<Rightarrow>
          (case setitem cfg key (PStr (unmangle s)) of
             (cfg', Some e) \<Rightarrow> Inl e
           | (cfg', None) \<Rightarrow> load_items cfg' rest))"
| "load_items cfg ((key, v) # rest) =
     (case setitem cfg key v of
        (cfg', Some e) \<Rightarrow> Inl e
      | (cfg', None) \<Rightarrow> load_items cfg' rest)"

definition load :: "filesys \<Rightarrow> pystr \<Rightarrow> exn + Config" where
  "load fs path =
     (case Config_init [] of
        (cfg, Some e) \<Rightarrow> Inl e
      | (cfg, None) \<Rightarrow>
          (case open_r fs path of
             Inl e \<Rightarrow> Inl e
           | Inr doc \<Rightarrow>
               (case yaml_safe_load doc of
                  None \<Rightarrow> Inl AttributeError
                | Some data \<Rightarrow> load_items cfg data)))"

section \<open>The file name validator\<close>

text \<open>
  \<open>re.match(r'^[\w\-. ]+$', fn)\<close>. For a \<open>str\<close> pattern \<open>\w\<close> is the underscore and
  every alphanumeric code point: the ASCII letters and digits, and beyond ASCII what the
  Unicode database says (\<open>uni_alnum\<close>, a parameter). Without \<open>re.MULTILINE\<close>, \<open>$\<close>
  matches at the end of the string and also just before a newline that ends it.
\<close>

definition is_word :: "(codepoint \<Rightarrow> bool) \<Rightarrow> codepoint \<Rightarrow> bool" where
  "is_word uni_alnum c =
     ((48 \<le> c \<and> c \<le> 57) \<or> (65 \<le> c \<and> c \<le> 90) \<or> (97 \<le> c \<and> c \<le> 122) \<or> c = 95
      \<or> (128 \<le> c \<and> uni_alnum c))"

definition in_class :: "(codepoint \<Rightarrow> bool) \<Rightarrow> codepoint \<Rightarrow> bool" where
  "in_class uni_alnum c = (is_word uni_alnum c \<or> c = 45 \<or> c = 46 \<or> c = 32)"

definition re_match_filename :: "(codepoint \<Rightarrow> bool) \<Rightarrow> pystr \<Rightarrow> bool" where
  "re_match_filename uni_alnum fn =
     (let body = takeWhile (in_class uni_alnum) fn;
          rest = dropWhile (in_class uni_alnum) fn
      in body \<noteq> [] \<and> (rest = [] \<or> rest = [10]))"

text \<open>
  \<open>os.path.dirname\<close> (POSIX): everything up to and including the last slash, with
  trailing slashes stripped unless the head consists of slashes only.
  \<open>os.path.exists\<close>: whether \<open>os.stat\<close> succeeds, which it never does for the empty
  path; \<open>disk\<close> says which other paths exist.
\<close>

definition os_path_dirname :: "pystr \<Rightarrow> pystr" where
  "os_path_dirname p =
     (let head = rev (dropWhile (\<lambda>c. c \<noteq> 47) (rev p))
      in if head \<noteq> [] \<and> head \<noteq> replicate (length head) 47
         then rev (dropWhile (\<lambda>c. c = 47) (rev head)) else head)"

definition os_path_exists :: "(pystr \<Rightarrow> bool) \<Rightarrow> pystr \<Rightarrow> bool" where
  "os_path_exists disk p = (if p = [] then False else disk p)"

definition is_valid_filename :: "(codepoint \<Rightarrow> bool) \<Rightarrow> (pystr \<Rightarrow> bool) \<Rightarrow> pystr \<Rightarrow> bool" where
  "is_valid_filename uni_alnum disk fn =
     (if \<not> re_match_filename uni_alnum fn then False
      else os_path_exists disk (os_path_dirname fn))"

datatype ValidationResult = Success | Failure pystr

definition validate :: "(codepoint \<Rightarrow> bool) \<Rightarrow> (pystr \<Rightarrow> bool) \<Rightarrow> pystr \<Rightarrow> ValidationResult" where
  "validate uni_alnum disk v =
     (if is_valid_filename uni_alnum disk v then Success
      else Failure (py ''Invalid filename or path.''))"

section \<open>The application\<close>

text \<open>
  The state of the \<open>Configurator\<close> that its handlers read and write: the configuration,
  the displayed keys, the file system, the notifications shown so far, and whether
  \<open>exit\<close> was called. The rows on screen (\<open>self.query('Row')\<close>, each a key and a value
  typed into an \<open>Input\<close>, hence strings) and the content of the file name field are
  arguments of the handlers.
\<close>

record Configurator =
  config :: Config
  keys :: "pykey list"
  disk_state :: filesys
  notifications :: "pystr list"
  exited :: bool

fun rows_dict :: "(pykey, pyval) pydict \<Rightarrow> (pystr \<times> pystr) list \<Rightarrow> (pykey, pyval) pydict" where
  "rows_dict d [] = d"
| "rows_dict d ((k, v) # rows) =
     rows_dict (if \<not> (k = py ''new_key'') then dict_setitem d (KStr k) (PStr v) else d) rows"

definition saved_message :: "pystr \<Rightarrow> pystr" where
  "saved_message fn = py ''Configuration saved to '' @ fn @ py '' successfully.''"

text \<open>
  \<open>on_save_button_pressed\<close>. \<open>dict.update\<close> fills the dict without going through
  \<open>__setitem__\<close>, so the new \<open>Config\<close> gets no instance attribute.
\<close>

definition on_save_button_pressed ::
  "Configurator \<Rightarrow> (pystr \<times> pystr) list \<Rightarrow> pystr \<Rightarrow> bool \<Rightarrow> Configurator \<times> exn option" where
  "on_save_button_pressed a rows fn notify =
     (case Config_init [] of
        (c0, Some e) \<Rightarrow> (a, Some e)
      | (c0, None) \<Rightarrow>
          let a1 = a\<lparr>config := c0\<rparr> in
          (case bound_method c0 (py ''update'') of
             Some e \<Rightarrow> (a1, Some e)
           | None \<Rightarrow>
               let c1 = c0\<lparr>entries := dict_update (entries c0) (rows_dict [] rows)\<rparr>;
                   a2 = a1\<lparr>config := c1\<rparr>
               in (case bound_method c1 (py ''keys'') of
                     Some e \<Rightarrow> (a2, Some e)
                   | None \<Rightarrow>
                       let a3 = a2\<lparr>keys := map fst (entries c1)\<rparr> in
                       (case bound_method c1 (py ''save'') of
                          Some e \<Rightarrow> (a3, Some e)
                        | None \<Rightarrow>
                            (case save c1 (disk_state a3) fn of
                               (fs', Some e) \<Rightarrow> (a3\<lparr>disk_state := fs'\<rparr>, Some e)
                             | (fs', None) \<Rightarrow>
                                 let a4 = a3\<lparr>disk_state := fs'\<rparr> in
                                 (if notify
                                  then a4\<lparr>notifications := notifications a4 @ [saved_message fn]\<rparr>
                                  else a4, None))))))"

definition on_quit_button_pressed ::
  "Configurator \<Rightarrow> (pystr \<times> pystr) list \<Rightarrow> pystr \<Rightarrow> Configurator \<times> exn option" where
  "on_quit_button_pressed a rows fn =
     (case on_save_button_pressed a rows fn False of
        (a', Some e) \<Rightarrow> (a', Some e)
      | (a', None) \<Rightarrow> (a'\<lparr>exited := True\<rparr>, None))"

definition on_add_row_button_pressed ::
  "Configurator \<Rightarrow> (pystr \<times> pystr) list \<Rightarrow> pystr \<Rightarrow> Configurator \<times> exn option" where
  "on_add_row_button_pressed a rows fn =
     (case on_save_button_pressed a rows fn False of
        (a', Some e) \<Rightarrow> (a', Some e)
      | (a', None) \<Rightarrow> (a'\<lparr>keys := keys a' @ [KStr (py ''new_key'')]\<rparr>, None))"

section \<open>The specification's wording\<close>

text \<open>
  What the specification says a save and a load do to one top-level value: a string is
  obscured (revealed), anything else is kept. And how it says a store is rebuilt from the
  rows: every row whose key is not the sentinel is inserted, in the rows' order.
\<close>

definition obscure_top :: "pyval \<Rightarrow> pyval" where
  "obscure_top v = (case v of PStr s \<Rightarrow> PStr (mangle s) | _ \<Rightarrow> v)"

definition reveal_top :: "pyval \<Rightarrow> pyval" where
  "reveal_top v = (case v of PStr s \<Rightarrow> PStr (unmangle s) | _ \<Rightarrow> v)"

definition spec_reconcile :: "(pystr \<times> pystr) list \<Rightarrow> (pykey, pyval) pydict" where
  "spec_reconcile rows =
     foldl (\<lambda>d (k, v). dict_setitem d (KStr k) (PStr v)) []
       (filter (\<lambda>(k, v). k \<noteq> py ''new_key'') rows)"

section \<open>Keys whose attribute is a plain one\<close>

text \<open>
  The keys for which \<open>__setitem__\<close> inside \<open>load\<close> cannot raise and cannot shadow
  \<open>_unmangle\<close>: every key that is not a string, and every string whose attribute name is
  none of the four below.
\<close>

definition reserved_names :: "pystr list" where
  "reserved_names = [py ''__class__'', py ''__weakref__'', py ''__dict__'', py ''_unmangle'']"

definition plain_key :: "pykey \<Rightarrow> bool" where
  "plain_key key = (case key of KInt i \<Rightarrow> True | KStr s \<Rightarrow> sub_spaces s \<notin> set reserved_names)"

text \<open>
  The keys whose attribute name is \<open>__dict__\<close>: assigning a mapping under one of them
  makes that mapping the namespace. And the values that the YAML library gives back
  exactly as they were dumped, whatever they hold: no float and no container.
\<close>

definition namespace_key :: "pykey \<Rightarrow> bool" where
  "namespace_key key = (case key of KInt i \<Rightarrow> False | KStr s \<Rightarrow> sub_spaces s = py ''__dict__'')"

definition flat_value :: "pyval \<Rightarrow> bool" where
  "flat_value v =
     (case v of PNone \<Rightarrow> True | PBool b \<Rightarrow> True | PInt i \<Rightarrow> True | PStr s \<Rightarrow> True
      | _ \<Rightarrow> False)"

section \<open>Example states\<close>

text \<open>
  A disk whose only file is \<open>config.yaml\<close>, writable or not, and a running application
  that holds a given configuration. The concrete instances of the theorems below are
  taken at these states.
\<close>

definition example_disk :: "bool \<Rightarrow> yaml_doc \<Rightarrow> filesys" where
  "example_disk locked doc =
     \<lparr>contents = (\<lambda>p. if p = py ''config.yaml'' then Some doc else None),
      open_denied = (\<lambda>p. locked)\<rparr>"

definition example_app :: "filesys \<Rightarrow> Config \<Rightarrow> Configurator" where
  "example_app d cfg =
     \<lparr>config = cfg, keys = map fst (entries cfg), disk_state = d, notifications = [],
      exited = False\<rparr>"

section \<open>Properties of the value transform\<close>

lemma slice_back_rev: "n \<le> length xs \<Longrightarrow> slice_back xs n = rev (take n xs)"
  by (induction n) (simp_all add: take_Suc_conv_app_nth)

lemma mangle_rev: "mangle v = rev v"
  by (simp add: mangle_def slice_back_rev)

lemma unmangle_rev: "unmangle v = rev v"
  by (simp add: unmangle_def slice_back_rev)

text \<open>
  C2. For every string \<open>s\<close>, the empty one and those with code points beyond ASCII
  included, revealing the obscured \<open>s\<close> gives \<open>s\<close> back. Both functions are total: they
  are defined on every sequence of code points and have no failing branch.
\<close>

theorem transform_involution: "unmangle (mangle s) = s"
  by (simp add: mangle_rev unmangle_rev)

theorem transform_involution_witness:
  "unmangle (mangle []) = []
   \<and> unmangle (mangle [104, 233, 8364, 128512]) = [104, 233, 8364, 128512]"
  using transform_involution [of "[]"] transform_involution [of "[104, 233, 8364, 128512]"]
  by simp

text \<open>
  C9. The transform reverses the sequence of code points of its input; obscuring
  \<open>hello\<close> gives \<open>olleh\<close> and revealing \<open>olleh\<close> gives \<open>hello\<close>. The witness reverses
  a string whose code points take one, two and three bytes in UTF-8: each stays whole.
\<close>

theorem transform_reverses:
  "mangle s = rev s \<and> unmangle s = rev s
   \<and> mangle (py ''hello'') = py ''olleh'' \<and> unmangle (py ''olleh'') = py ''hello''"
  by (simp add: mangle_rev unmangle_rev py_def)

theorem transform_reverses_witness:
  "mangle [104, 233, 8364] = [8364, 233, 104] \<and> unmangle [8364, 233, 104] = [104, 233, 8364]"
  using transform_reverses [of "[104, 233, 8364]"] transform_reverses [of "[8364, 233, 104]"]
  by simp

section \<open>Properties of the dict\<close>

lemma keys_dict_setitem:
  "map fst (dict_setitem d k v) = (if k \<in> set (map fst d) then map fst d else map fst d @ [k])"
  by (induction d) force+

lemma distinct_dict_setitem:
  "distinct (map fst d) \<Longrightarrow> distinct (map fst (dict_setitem d k v))"
  by (simp add: keys_dict_setitem)

lemma dict_setitem_absent:
  "k \<notin> set (map fst d) \<Longrightarrow> dict_setitem d k v = d @ [(k, v)]"
  by (induction d) auto

lemma dict_setitem_present:
  "distinct (map fst d) \<Longrightarrow> k \<in> set (map fst d) \<Longrightarrow>
   dict_setitem d k v = map (\<lambda>e. if fst e = k then (fst e, v) else e) d"
  by (induction d) (auto simp: rev_image_eqI intro!: map_idI [symmetric])

lemma dict_remove_filter:
  "distinct (map fst d) \<Longrightarrow> dict_remove d k = filter (\<lambda>e. fst e \<noteq> k) d"
  by (induction d) (auto simp: rev_image_eqI intro!: filter_id_conv [THEN iffD2, symmetric])

lemma dict_contains_keys: "dict_contains d k \<longleftrightarrow> k \<in> set (map fst d)"
  by (simp add: dict_contains_def map_of_eq_None_iff)

lemma write_through_unshared: "shared c = None \<Longrightarrow> write_through c f = entries c"
  by (simp add: write_through_def)

lemma setitem_unshared:
  "shared c = None \<Longrightarrow> entries (fst (setitem c k v)) = dict_setitem (entries c) k v"
  by (cases k)
     (simp_all add: setitem_def setattr_def unshare_def write_through_def Let_def
        split: pyval.splits)

lemma setitem_stays_unshared:
  "shared c = None \<Longrightarrow> \<not> namespace_key k \<Longrightarrow> shared (fst (setitem c k v)) = None"
  by (cases k)
     (simp_all add: setitem_def setattr_def unshare_def namespace_key_def Let_def)

lemma delitem_unshared:
  "shared c = None \<Longrightarrow>
   entries (fst (delitem c k)) =
     (if dict_contains (entries c) k then dict_remove (entries c) k else entries c)"
  by (cases k)
     (simp_all add: delitem_def dict_delitem_def delattr_def unshare_def write_through_def
        split: sum.splits)

lemma dict_update_append:
  "distinct (map fst (d0 @ d)) \<Longrightarrow> dict_update d0 d = d0 @ d"
proof (induction d arbitrary: d0)
  case Nil
  then show ?case by simp
next
  case (Cons e d)
  obtain k v where e: "e = (k, v)" by (cases e)
  from Cons.prems e have k: "k \<notin> set (map fst d0)" by auto
  from Cons.prems e have "distinct (map fst ((d0 @ [(k, v)]) @ d))" by auto
  then have "dict_update (d0 @ [(k, v)]) d = (d0 @ [(k, v)]) @ d" by (rule Cons.IH)
  with k e show ?case by (simp add: dict_setitem_absent)
qed

lemma distinct_dict_update:
  "distinct (map fst d0) \<Longrightarrow> distinct (map fst (dict_update d0 d))"
  by (induction d arbitrary: d0) (auto simp: distinct_dict_setitem)

lemma dict_update_foldl:
  "dict_update d0 d = foldl (\<lambda>d (k, v). dict_setitem d k v) d0 d"
  by (induction d arbitrary: d0) auto

lemma rows_dict_foldl:
  "rows_dict d rows =
     foldl (\<lambda>d (k, v). dict_setitem d (KStr k) (PStr v)) d
       (filter (\<lambda>(k, v). k \<noteq> py ''new_key'') rows)"
  by (induction rows arbitrary: d) auto

lemma distinct_rows_dict:
  "distinct (map fst d) \<Longrightarrow> distinct (map fst (rows_dict d rows))"
  by (induction rows arbitrary: d) (auto simp: distinct_dict_setitem)

lemma rows_dict_spec: "rows_dict [] rows = spec_reconcile rows"
  by (simp add: rows_dict_foldl spec_reconcile_def)

lemma distinct_spec_reconcile: "distinct (map fst (spec_reconcile rows))"
  using distinct_rows_dict [of "[]" rows] by (simp add: rows_dict_spec)

lemma Config_init_empty: "Config_init [] = (\<lparr>entries = [], attrs = [], shared = None\<rparr>, None)"
  by (simp add: Config_init_def)

lemma bound_method_fresh: "attrs c = [] \<Longrightarrow> bound_method c name = None"
  by (simp add: bound_method_def dict_contains_def)

lemma yaml_dump_twice:
  "contents fs path = Some doc \<Longrightarrow>
   (yaml_dump fs path k v)\<lparr>contents := (contents (yaml_dump fs path k v))(path \<mapsto> ys)\<rparr>
     = fs\<lparr>contents := (contents fs)(path \<mapsto> ys)\<rparr>"
  by (simp add: yaml_dump_def)

lemma save_items_plain:
  "bound_method c (py ''_mangle'') = None \<Longrightarrow> contents fs path = Some doc \<Longrightarrow>
   save_items c fs path items =
     (fs\<lparr>contents := (contents fs)(path \<mapsto> doc @ map (\<lambda>e. (fst e, obscure_top (snd e))) items)\<rparr>, None)"
proof (induction items arbitrary: fs doc)
  case Nil
  then show ?case by (simp add: fun_upd_idem)
next
  case (Cons e items)
  obtain k v where e: "e = (k, v)" by (cases e)
  let ?fs = "yaml_dump fs path k (obscure_top v)"
  let ?ys = "(doc @ [(k, obscure_top v)]) @ map (\<lambda>e. (fst e, obscure_top (snd e))) items"
  have c: "contents ?fs path = Some (doc @ [(k, obscure_top v)])"
    using Cons.prems(2) by (simp add: yaml_dump_def)
  have step: "save_items c fs path (e # items) = save_items c ?fs path items"
    using Cons.prems(1) e by (cases v) (simp_all add: obscure_top_def)
  have ih: "save_items c ?fs path items = (?fs\<lparr>contents := (contents ?fs)(path \<mapsto> ?ys)\<rparr>, None)"
    using Cons.prems(1) c by (rule Cons.IH)
  have eq: "doc @ map (\<lambda>e. (fst e, obscure_top (snd e))) (e # items) = ?ys"
    using e by simp
  have "save_items c fs path (e # items) = (fs\<lparr>contents := (contents fs)(path \<mapsto> ?ys)\<rparr>, None)"
    unfolding step ih yaml_dump_twice [OF Cons.prems(2)] ..
  then show ?case unfolding eq .
qed

lemma save_items_result:
  "contents fs path = Some doc \<Longrightarrow> save_items c fs path items = (fs', None) \<Longrightarrow>
   contents fs' path = Some (doc @ map (\<lambda>e. (fst e, obscure_top (snd e))) items)"
proof (induction items arbitrary: fs doc)
  case Nil
  then show ?case by simp
next
  case (Cons e items)
  obtain k v where e: "e = (k, v)" by (cases e)
  let ?fs = "yaml_dump fs path k (obscure_top v)"
  have c: "contents ?fs path = Some (doc @ [(k, obscure_top v)])"
    using Cons.prems(1) by (simp add: yaml_dump_def)
  have step: "save_items c ?fs path items = (fs', None)"
    using Cons.prems(2) e by (cases v) (simp_all add: obscure_top_def split: option.splits)
  from Cons.IH [OF c step] e show ?case by simp
qed

lemma save_result:
  "save c fs path = (fs', None) \<Longrightarrow>
   contents fs' path = Some (map (\<lambda>e. (fst e, obscure_top (snd e))) (entries c))"
proof -
  assume s: "save c fs path = (fs', None)"
  let ?fs = "fs\<lparr>contents := (contents fs)(path \<mapsto> [])\<rparr>"
  from s have "save_items c ?fs path (entries c) = (fs', None)"
    by (simp add: save_def open_w_def split: if_splits option.splits)
  moreover have "contents ?fs path = Some []" by simp
  ultimately show ?thesis using save_items_result [of ?fs path "[]" c "entries c" fs'] by simp
qed

lemma save_fresh:
  "attrs c = [] \<Longrightarrow>
   save c fs path =
     (if open_denied fs path then (fs, Some OSError)
      else (fs\<lparr>contents := (contents fs)(path \<mapsto> map (\<lambda>e. (fst e, obscure_top (snd e))) (entries c))\<rparr>, None))"
  using save_items_plain [of c "fs\<lparr>contents := (contents fs)(path \<mapsto> [])\<rparr>" path "[]" "entries c"]
  by (simp add: save_def open_w_def bound_method_fresh)

lemma on_save_button_pressed_eq:
  "on_save_button_pressed a rows fn notify =
     (let c1 = \<lparr>entries = spec_reconcile rows, attrs = [], shared = None\<rparr>;
          a3 = a\<lparr>config := c1, keys := map fst (spec_reconcile rows)\<rparr>
      in if open_denied (disk_state a) fn then (a3, Some OSError)
         else (a3\<lparr>disk_state := (disk_state a)\<lparr>contents := (contents (disk_state a))(fn \<mapsto>
                   map (\<lambda>e. (fst e, obscure_top (snd e))) (spec_reconcile rows))\<rparr>,
                 notifications := (if notify then notifications a @ [saved_message fn]
                                   else notifications a)\<rparr>, None))"
  using dict_update_append [of "[]" "spec_reconcile rows"] distinct_spec_reconcile [of rows]
  by (simp add: on_save_button_pressed_def Config_init_empty bound_method_fresh rows_dict_spec
      save_fresh Let_def)

section \<open>Set and remove\<close>

text \<open>
  What holds: in a store whose namespace is its own dict, \<open>set\<close> and \<open>remove\<close> leave
  the mapping as a dict would, whatever \<open>remove\<close> raises afterwards.
\<close>

lemma set_remove_keep_order:
  assumes "distinct (map fst (entries c))" and "shared c = None"
  shows "distinct (map fst (entries (fst (setitem c k v))))
    \<and> distinct (map fst (entries (fst (delitem c k))))
    \<and> (k \<in> set (map fst (entries c)) \<longrightarrow>
         entries (fst (setitem c k v)) = map (\<lambda>e. if fst e = k then (fst e, v) else e) (entries c)
         \<and> entries (fst (delitem c k)) = filter (\<lambda>e. fst e \<noteq> k) (entries c))
    \<and> (k \<notin> set (map fst (entries c)) \<longrightarrow>
         entries (fst (setitem c k v)) = entries c @ [(k, v)])"
proof -
  note s = setitem_unshared [OF assms(2)] and d = delitem_unshared [OF assms(2)]
  have d1: "distinct (map fst (entries (fst (setitem c k v))))"
    using assms(1) by (simp add: s distinct_dict_setitem)
  have d2: "distinct (map fst (entries (fst (delitem c k))))"
    using assms(1) by (simp add: d dict_remove_filter distinct_map_filter)
  have p: "k \<in> set (map fst (entries c)) \<Longrightarrow>
         entries (fst (setitem c k v)) = map (\<lambda>e. if fst e = k then (fst e, v) else e) (entries c)
         \<and> entries (fst (delitem c k)) = filter (\<lambda>e. fst e \<noteq> k) (entries c)"
    using assms(1)
    by (simp only: s d dict_contains_keys dict_setitem_present dict_remove_filter if_True simp_thms)
  have a: "k \<notin> set (map fst (entries c)) \<Longrightarrow>
         entries (fst (setitem c k v)) = entries c @ [(k, v)]"
    by (simp add: s dict_setitem_absent)
  from d1 d2 p a show ?thesis by blast
qed

text \<open>
  What \<open>remove\<close> raises: \<open>__delitem__\<close> hands \<open>delattr\<close> the key itself, where
  \<open>__setitem__\<close> stored the attribute under the key with its whitespace replaced, and
  only for a string key. So \<open>remove\<close> raises for every key that is not a string, and,
  in a store without attributes (what \<open>dict.update\<close> in the save handler builds), for
  every key but \<open>__dict__\<close>.
\<close>

lemma delitem_fresh_raises:
  "attrs c = [] \<Longrightarrow> dict_contains (entries c) k \<Longrightarrow> k \<noteq> KStr (py ''__dict__'') \<Longrightarrow>
   snd (delitem c k) \<noteq> None"
  by (cases k)
     (simp_all add: delitem_def dict_delitem_def delattr_def dict_contains_def)

lemma delitem_int_raises:
  "dict_contains (entries c) (KInt i) \<Longrightarrow> snd (delitem c (KInt i)) = Some TypeError"
  by (simp add: delitem_def dict_delitem_def delattr_def)

text \<open>
  C7. The claim has \<open>remove\<close> on a present key delete the entry and leave a sound
  store, and \<open>set\<close> leave all other entries as they are, for every store and key. The
  code does not: \<open>remove\<close> of the key \<open>my key\<close>, set a moment before, deletes the entry
  and then raises \<open>AttributeError\<close>, the attribute \<open>my_key\<close> staying behind; so it does
  for every key of the store the save handler builds, and with \<open>TypeError\<close> for an
  integer key; and once a mapping is stored under \<open>__dict__\<close>, \<open>set\<close> on another key
  writes that key into the mapping too.
\<close>

theorem remove_raises_after_deleting:
  "setitem \<lparr>entries = [], attrs = [], shared = None\<rparr> (KStr (py ''my key'')) (PStr (py ''v''))
     = (\<lparr>entries = [(KStr (py ''my key''), PStr (py ''v''))],
          attrs = [(py ''my_key'', PStr (py ''v''))], shared = None\<rparr>, None)
   \<and> delitem \<lparr>entries = [(KStr (py ''my key''), PStr (py ''v''))],
          attrs = [(py ''my_key'', PStr (py ''v''))], shared = None\<rparr> (KStr (py ''my key''))
     = (\<lparr>entries = [], attrs = [(py ''my_key'', PStr (py ''v''))], shared = None\<rparr>,
        Some AttributeError)
   \<and> delitem (config (fst (on_save_button_pressed a [(py ''a'', py ''hello'')] fn notify)))
          (KStr (py ''a''))
     = (\<lparr>entries = [], attrs = [], shared = None\<rparr>, Some AttributeError)
   \<and> delitem (fst (setitem \<lparr>entries = [], attrs = [], shared = None\<rparr> (KInt 7) PNone)) (KInt 7)
     = (\<lparr>entries = [], attrs = [], shared = None\<rparr>, Some TypeError)
   \<and> entries (fst (setitem
         (fst (setitem \<lparr>entries = [], attrs = [], shared = None\<rparr>
                 (KStr (py ''__dict__'')) (PDict [(KStr (py ''a''), PInt 1)])))
         (KStr (py ''z'')) PNone))
     = [(KStr (py ''__dict__''), PDict [(KStr (py ''a''), PInt 1), (KStr (py ''z''), PNone)]),
        (KStr (py ''z''), PNone)]"
  by (simp add: setitem_def setattr_def delitem_def delattr_def dict_delitem_def
      dict_contains_def unshare_def write_through_def isspace_def Let_def py_def
      on_save_button_pressed_eq spec_reconcile_def)

section \<open>The save and quit handlers\<close>

text \<open>
  C3. Whatever the session held before, after \<open>on_save_button_pressed\<close> the store is
  the one obtained by inserting, in the rows' order, exactly the rows whose key is not
  \<open>new_key\<close>; the displayed keys are its keys; and when the file can be opened it holds
  that store, string values obscured. For the rows \<open>("a", "hello")\<close>, \<open>("new_key", "")\<close>
  the store is \<open>{"a": "hello"}\<close> alone.
\<close>

theorem reconcile_skips_sentinel:
  "entries (config (fst (on_save_button_pressed a rows fn notify))) = spec_reconcile rows
   \<and> attrs (config (fst (on_save_button_pressed a rows fn notify))) = []
   \<and> keys (fst (on_save_button_pressed a rows fn notify)) = map fst (spec_reconcile rows)
   \<and> (\<not> open_denied (disk_state a) fn \<longrightarrow>
        snd (on_save_button_pressed a rows fn notify) = None
        \<and> contents (disk_state (fst (on_save_button_pressed a rows fn notify))) fn
            = Some (map (\<lambda>(k, v). (k, obscure_top v)) (spec_reconcile rows)))
   \<and> spec_reconcile [(py ''a'', py ''hello''), (py ''new_key'', [])]
        = [(KStr (py ''a''), PStr (py ''hello''))]"
  by (simp add: on_save_button_pressed_eq Let_def case_prod_beta spec_reconcile_def py_def)

theorem reconcile_skips_sentinel_witness:
  "entries (config (fst (on_save_button_pressed
       (example_app (example_disk False []) \<lparr>entries = [], attrs = [], shared = None\<rparr>)
       [(py ''a'', py ''hello''), (py ''new_key'', [])] (py ''config.yaml'') True)))
     = [(KStr (py ''a''), PStr (py ''hello''))]
   \<and> contents (disk_state (fst (on_save_button_pressed
       (example_app (example_disk False []) \<lparr>entries = [], attrs = [], shared = None\<rparr>)
       [(py ''a'', py ''hello''), (py ''new_key'', [])] (py ''config.yaml'') True)))
       (py ''config.yaml'')
     = Some [(KStr (py ''a''), PStr (py ''olleh''))]"
  using reconcile_skips_sentinel [of
       "example_app (example_disk False []) \<lparr>entries = [], attrs = [], shared = None\<rparr>"
       "[(py ''a'', py ''hello''), (py ''new_key'', [])]" "py ''config.yaml''" True]
  by (simp add: example_app_def example_disk_def obscure_top_def mangle_rev py_def)

text \<open>
  C5. \<open>on_quit_button_pressed\<close> leaves the state that \<open>on_save_button_pressed\<close> with
  \<open>notify = False\<close> leaves, with \<open>exited\<close> set exactly when that save did not raise; it
  raises what the save raises; it shows no notification; and a session that was running
  and has exited has the reconciled rows as its store and in the destination file.
\<close>

theorem quit_saves_first:
  "notifications (fst (on_quit_button_pressed a rows fn)) = notifications a
   \<and> fst (on_quit_button_pressed a rows fn)
       = (fst (on_save_button_pressed a rows fn False))
           \<lparr>exited := exited a \<or> snd (on_save_button_pressed a rows fn False) = None\<rparr>
   \<and> snd (on_quit_button_pressed a rows fn) = snd (on_save_button_pressed a rows fn False)
   \<and> (\<not> exited a \<and> exited (fst (on_quit_button_pressed a rows fn)) \<longrightarrow>
        entries (config (fst (on_quit_button_pressed a rows fn))) = spec_reconcile rows
        \<and> contents (disk_state (fst (on_quit_button_pressed a rows fn))) fn
            = Some (map (\<lambda>(k, v). (k, obscure_top v)) (spec_reconcile rows)))"
  by (simp add: on_quit_button_pressed_def on_save_button_pressed_eq Let_def case_prod_beta)

theorem quit_saves_first_witness:
  "exited (fst (on_quit_button_pressed
       (example_app (example_disk False [(KStr (py ''a''), PStr (py ''0''))])
          \<lparr>entries = [(KStr (py ''a''), PStr (py ''0''))], attrs = [(py ''a'', PStr (py ''0''))], shared = None\<rparr>)
       [(py ''a'', py ''1'')] (py ''config.yaml'')))
   \<and> contents (disk_state (fst (on_quit_button_pressed
       (example_app (example_disk False [(KStr (py ''a''), PStr (py ''0''))])
          \<lparr>entries = [(KStr (py ''a''), PStr (py ''0''))], attrs = [(py ''a'', PStr (py ''0''))], shared = None\<rparr>)
       [(py ''a'', py ''1'')] (py ''config.yaml'')))) (py ''config.yaml'')
     = Some [(KStr (py ''a''), PStr (py ''1''))]
   \<and> notifications (fst (on_quit_button_pressed
       (example_app (example_disk False [(KStr (py ''a''), PStr (py ''0''))])
          \<lparr>entries = [(KStr (py ''a''), PStr (py ''0''))], attrs = [(py ''a'', PStr (py ''0''))], shared = None\<rparr>)
       [(py ''a'', py ''1'')] (py ''config.yaml''))) = []"
  using quit_saves_first [of
       "example_app (example_disk False [(KStr (py ''a''), PStr (py ''0''))])
          \<lparr>entries = [(KStr (py ''a''), PStr (py ''0''))], attrs = [(py ''a'', PStr (py ''0''))], shared = None\<rparr>"
       "[(py ''a'', py ''1'')]" "py ''config.yaml''"]
  by (simp add: on_save_button_pressed_eq Let_def example_app_def example_disk_def
      spec_reconcile_def obscure_top_def mangle_rev py_def)

text \<open>
  C8. With \<open>notify = True\<close>, \<open>on_save_button_pressed\<close> does the save and nothing else
  to the disk: the store is the reconciled rows, the disk is the one \<open>Config.save\<close> of
  that store leaves, and the handler raises exactly what that save raises. When the save
  does not raise, the destination holds the store and the success notification is
  appended; when it raises, the notifications and the disk are as before. With
  \<open>notify = False\<close> nothing is ever notified.
\<close>

theorem notify_iff_saved:
  "snd (on_save_button_pressed a rows fn True)
     = snd (save (config (fst (on_save_button_pressed a rows fn True))) (disk_state a) fn)
   \<and> disk_state (fst (on_save_button_pressed a rows fn True))
     = fst (save (config (fst (on_save_button_pressed a rows fn True))) (disk_state a) fn)
   \<and> config (fst (on_save_button_pressed a rows fn True))
     = \<lparr>entries = spec_reconcile rows, attrs = [], shared = None\<rparr>
   \<and> keys (fst (on_save_button_pressed a rows fn True)) = map fst (spec_reconcile rows)
   \<and> exited (fst (on_save_button_pressed a rows fn True)) = exited a
   \<and> (snd (on_save_button_pressed a rows fn True) = None \<longrightarrow>
        notifications (fst (on_save_button_pressed a rows fn True))
          = notifications a @ [saved_message fn]
        \<and> contents (disk_state (fst (on_save_button_pressed a rows fn True))) fn
          = Some (map (\<lambda>(k, v). (k, obscure_top v)) (spec_reconcile rows)))
   \<and> (snd (on_save_button_pressed a rows fn True) \<noteq> None \<longrightarrow>
        notifications (fst (on_save_button_pressed a rows fn True)) = notifications a
        \<and> disk_state (fst (on_save_button_pressed a rows fn True)) = disk_state a)
   \<and> notifications (fst (on_save_button_pressed a rows fn False)) = notifications a"
  by (simp add: on_save_button_pressed_eq Let_def save_fresh case_prod_beta)

theorem notify_iff_saved_witness:
  "snd (on_save_button_pressed (example_app (example_disk False []) \<lparr>entries = [], attrs = [], shared = None\<rparr>)
       [(py ''a'', py ''hello'')] (py ''config.yaml'') True) = None
   \<and> notifications (fst (on_save_button_pressed
       (example_app (example_disk False []) \<lparr>entries = [], attrs = [], shared = None\<rparr>)
       [(py ''a'', py ''hello'')] (py ''config.yaml'') True))
     = [saved_message (py ''config.yaml'')]
   \<and> contents (disk_state (fst (on_save_button_pressed
       (example_app (example_disk False []) \<lparr>entries = [], attrs = [], shared = None\<rparr>)
       [(py ''a'', py ''hello'')] (py ''config.yaml'') True))) (py ''config.yaml'')
     = Some [(KStr (py ''a''), PStr (py ''olleh''))]
   \<and> snd (on_save_button_pressed (example_app (example_disk True []) \<lparr>entries = [], attrs = [], shared = None\<rparr>)
       [(py ''a'', py ''hello'')] (py ''config.yaml'') True) = Some OSError
   \<and> notifications (fst (on_save_button_pressed
       (example_app (example_disk True []) \<lparr>entries = [], attrs = [], shared = None\<rparr>)
       [(py ''a'', py ''hello'')] (py ''config.yaml'') True)) = []
   \<and> contents (disk_state (fst (on_save_button_pressed
       (example_app (example_disk True []) \<lparr>entries = [], attrs = [], shared = None\<rparr>)
       [(py ''a'', py ''hello'')] (py ''config.yaml'') True))) (py ''config.yaml'')
     = Some []"
  using notify_iff_saved [of "example_app (example_disk False []) \<lparr>entries = [], attrs = [], shared = None\<rparr>"
       "[(py ''a'', py ''hello'')]" "py ''config.yaml''"]
     notify_iff_saved [of "example_app (example_disk True []) \<lparr>entries = [], attrs = [], shared = None\<rparr>"
       "[(py ''a'', py ''hello'')]" "py ''config.yaml''"]
  by (simp add: on_save_button_pressed_eq Let_def save_fresh example_app_def example_disk_def
      spec_reconcile_def obscure_top_def mangle_rev py_def)

lemma map_dict_setitem_str:
  "map (\<lambda>(k, s). (KStr k, PStr s)) (dict_setitem d k v)
     = dict_setitem (map (\<lambda>(k, s). (KStr k, PStr s)) d) (KStr k) (PStr v)"
  by (induction d) auto

lemma foldl_setitem_str:
  "foldl (\<lambda>d (k, v). dict_setitem d (KStr k) (PStr v)) (map (\<lambda>(k, s). (KStr k, PStr s)) d0) xs
     = map (\<lambda>(k, s). (KStr k, PStr s)) (dict_update d0 xs)"
  by (induction xs arbitrary: d0) (auto simp: map_dict_setitem_str [symmetric])

lemma spec_reconcile_strings:
  "spec_reconcile rows
     = map (\<lambda>(k, s). (KStr k, PStr s))
         (dict_update [] (filter (\<lambda>(k, v). k \<noteq> py ''new_key'') rows))"
  using foldl_setitem_str [of "[]"] by (simp add: spec_reconcile_def)

text \<open>
  C10. After \<open>on_save_button_pressed\<close>, whatever the session held before, the store
  pairs string keys with string values (the rows without the sentinel, inserted in
  order); so any later \<open>save\<close> of that store that does not raise writes every value
  obscured. In the witness a session that had loaded the integer \<open>12\<close> under \<open>a\<close> and
  shows it as the row \<open>("a", "12")\<close> holds the string \<open>12\<close> afterwards and writes \<open>21\<close>.
\<close>

theorem reconciled_values_are_strings:
  "entries (config (fst (on_save_button_pressed a rows fn notify)))
     = map (\<lambda>(k, s). (KStr k, PStr s))
         (dict_update [] (filter (\<lambda>(k, v). k \<noteq> py ''new_key'') rows))
   \<and> (snd (save (config (fst (on_save_button_pressed a rows fn notify))) fs p) = None \<longrightarrow>
        contents (fst (save (config (fst (on_save_button_pressed a rows fn notify))) fs p)) p
          = Some (map (\<lambda>(k, s). (KStr k, PStr (mangle s)))
                   (dict_update [] (filter (\<lambda>(k, v). k \<noteq> py ''new_key'') rows))))"
  by (simp add: on_save_button_pressed_eq Let_def save_fresh spec_reconcile_strings
      obscure_top_def case_prod_beta)

theorem reconciled_values_are_strings_witness:
  "entries (config (fst (on_save_button_pressed
       (example_app (example_disk False [(KStr (py ''a''), PInt 12)])
          \<lparr>entries = [(KStr (py ''a''), PInt 12)], attrs = [(py ''a'', PInt 12)], shared = None\<rparr>)
       [(py ''a'', py ''12'')] (py ''config.yaml'') False)))
     = [(KStr (py ''a''), PStr (py ''12''))]
   \<and> contents (fst (save (config (fst (on_save_button_pressed
       (example_app (example_disk False [(KStr (py ''a''), PInt 12)])
          \<lparr>entries = [(KStr (py ''a''), PInt 12)], attrs = [(py ''a'', PInt 12)], shared = None\<rparr>)
       [(py ''a'', py ''12'')] (py ''config.yaml'') False)))
       (example_disk False []) (py ''config.yaml''))) (py ''config.yaml'')
     = Some [(KStr (py ''a''), PStr (py ''21''))]"
  using reconciled_values_are_strings [of
       "example_app (example_disk False [(KStr (py ''a''), PInt 12)])
          \<lparr>entries = [(KStr (py ''a''), PInt 12)], attrs = [(py ''a'', PInt 12)], shared = None\<rparr>"
       "[(py ''a'', py ''12'')]" "py ''config.yaml''" False "example_disk False []" "py ''config.yaml''"]
  by (simp add: on_save_button_pressed_eq Let_def save_fresh example_app_def example_disk_def
      spec_reconcile_def obscure_top_def mangle_rev py_def)

section \<open>The file name validator rejects every name\<close>

lemma in_class_not_slash: "\<not> in_class u 47"
  by (simp add: in_class_def is_word_def)

lemma re_match_no_slash: "re_match_filename u fn \<Longrightarrow> 47 \<notin> set fn"
proof -
  assume m: "re_match_filename u fn"
  have "set (takeWhile (in_class u) fn) \<subseteq> {c. in_class u c}"
    by (auto dest: set_takeWhileD)
  then have t: "47 \<notin> set (takeWhile (in_class u) fn)"
    using in_class_not_slash by auto
  from m have "dropWhile (in_class u) fn = [] \<or> dropWhile (in_class u) fn = [10]"
    unfolding re_match_filename_def Let_def by blast
  then have d: "47 \<notin> set (dropWhile (in_class u) fn)"
    by (elim disjE) (simp_all only: set_simps empty_iff insert_iff, simp_all)
  have "set fn = set (takeWhile (in_class u) fn) \<union> set (dropWhile (in_class u) fn)"
    by (metis set_append takeWhile_dropWhile_id)
  with t d show ?thesis by blast
qed

lemma dirname_no_slash: "47 \<notin> set p \<Longrightarrow> os_path_dirname p = []"
proof -
  assume "47 \<notin> set p"
  then have "dropWhile (\<lambda>c. c \<noteq> 47) (rev p) = []"
    by (auto simp: dropWhile_eq_Nil_conv)
  then show ?thesis by (simp add: os_path_dirname_def)
qed

text \<open>
  C4. The claim has the validator accept a name of the allowed characters whose directory
  component is empty, the empty component standing for the current directory. The code
  asks \<open>os.path.exists\<close> about that empty component, which is false: a name that
  matches has no slash, so its directory component is always empty, and every input is
  rejected, \<open>config.yaml\<close> included, whatever is on disk.
\<close>

theorem validate_rejects_every_name:
  "validate uni_alnum disk v = Failure (py ''Invalid filename or path.'')
   \<and> re_match_filename uni_alnum (py ''config.yaml'')
   \<and> os_path_dirname (py ''config.yaml'') = []"
proof -
  have "\<not> is_valid_filename uni_alnum disk v"
    by (auto simp: is_valid_filename_def os_path_exists_def dest!: re_match_no_slash dirname_no_slash)
  moreover have "re_match_filename uni_alnum (py ''config.yaml'')"
    by (simp add: re_match_filename_def in_class_def is_word_def py_def)
  moreover have "os_path_dirname (py ''config.yaml'') = []"
    by (simp add: os_path_dirname_def py_def)
  ultimately show ?thesis by (simp add: validate_def)
qed

section \<open>Save and load\<close>

lemma setitem_result:
  assumes "shared cfg = None" and "\<not> namespace_key k" and "setitem cfg k v = (cfg', e)"
  shows "entries cfg' = dict_setitem (entries cfg) k v \<and> shared cfg' = None"
  using setitem_unshared [OF assms(1), of k v] setitem_stays_unshared [OF assms(1,2), of v] assms(3)
  by simp

lemma load_items_entries:
  "shared cfg = None \<Longrightarrow> list_all (\<lambda>k. \<not> namespace_key k) (map fst items) \<Longrightarrow>
   load_items cfg items = Inr cfg' \<Longrightarrow>
   entries cfg' = dict_update (entries cfg) (map (\<lambda>e. (fst e, reveal_top (snd e))) items)"
proof (induction items arbitrary: cfg)
  case Nil
  then show ?case by simp
next
  case (Cons e items)
  obtain k v where e: "e = (k, v)" by (cases e)
  from Cons.prems(2) e have nk: "\<not> namespace_key k"
    and rest: "list_all (\<lambda>k. \<not> namespace_key k) (map fst items)" by simp_all
  obtain cfg1 where s: "setitem cfg k (reveal_top v) = (cfg1, None)"
    and r: "load_items cfg1 items = Inr cfg'"
    using Cons.prems(3) e
    by (cases v) (auto simp: reveal_top_def split: option.splits prod.splits)
  from setitem_result [OF Cons.prems(1) nk s]
  have e1: "entries cfg1 = dict_setitem (entries cfg) k (reveal_top v)" and u: "shared cfg1 = None"
    by simp_all
  from Cons.IH [OF u rest r] e1 e show ?case by simp
qed

lemma dict_update_id: "distinct (map fst d) \<Longrightarrow> dict_update [] d = d"
  using dict_update_append [of "[]" d] by simp

lemma load_entries:
  assumes "contents fs path = Some doc" and "yaml_safe_load doc = Some data"
    and "list_all (\<lambda>k. \<not> namespace_key k) (map fst data)"
    and "load fs path = Inr cfg"
  shows "entries cfg = map (\<lambda>e. (fst e, reveal_top (snd e))) data"
proof -
  from assms(2) have data: "data = dict_update [] doc"
    by (simp add: yaml_safe_load_def split: if_splits)
  from assms(1,2,4)
  have l: "load_items \<lparr>entries = [], attrs = [], shared = None\<rparr> data = Inr cfg"
    by (simp add: load_def Config_init_empty open_r_def)
  have d: "distinct (map fst data)"
    unfolding data using distinct_dict_update [of "[]" doc] by simp
  have "map fst (map (\<lambda>e. (fst e, reveal_top (snd e))) data) = map fst data"
    by (simp add: comp_def)
  with d have "distinct (map fst (map (\<lambda>e. (fst e, reveal_top (snd e))) data))"
    by (simp only:)
  then have "dict_update [] (map (\<lambda>e. (fst e, reveal_top (snd e))) data)
      = map (\<lambda>e. (fst e, reveal_top (snd e))) data"
    by (rule dict_update_id)
  with load_items_entries [OF _ assms(3) l] show ?thesis by simp
qed

text \<open>
  What holds: a \<open>save\<close> that returns has written, for every entry in order, the key and
  the value, the value obscured when it is a string and as it is otherwise; and a
  \<open>load\<close> that returns, of a file none of whose keys has the attribute name
  \<open>__dict__\<close>, holds every entry of the loaded mapping in order, the value revealed when
  it is a string and as it is otherwise.
\<close>

lemma save_load_transform:
  "(snd (save c fs path) = None \<longrightarrow>
      contents (fst (save c fs path)) path
        = Some (map (\<lambda>(k, v). (k, obscure_top v)) (entries c)))
   \<and> (contents fs path = Some doc \<and> yaml_safe_load doc = Some data
        \<and> list_all (\<lambda>k. \<not> namespace_key k) (map fst data) \<and> load fs path = Inr cfg \<longrightarrow>
      entries cfg = map (\<lambda>(k, v). (k, reveal_top v)) data)
   \<and> obscure_top (PStr s) = PStr (mangle s) \<and> reveal_top (PStr s) = PStr (unmangle s)
   \<and> ((\<forall>t. v \<noteq> PStr t) \<longrightarrow> obscure_top v = v \<and> reveal_top v = v)"
proof -
  have a: "snd (save c fs path) = None \<Longrightarrow>
      contents (fst (save c fs path)) path
        = Some (map (\<lambda>(k, v). (k, obscure_top v)) (entries c))"
    using save_result [of c fs path "fst (save c fs path)"]
    by (simp add: case_prod_beta prod_eq_iff)
  have b: "contents fs path = Some doc \<and> yaml_safe_load doc = Some data
        \<and> list_all (\<lambda>k. \<not> namespace_key k) (map fst data) \<and> load fs path = Inr cfg \<Longrightarrow>
      entries cfg = map (\<lambda>(k, v). (k, reveal_top v)) data"
    using load_entries [of fs path doc data cfg] by (simp add: case_prod_beta)
  have c: "(\<forall>t. v \<noteq> PStr t) \<Longrightarrow> obscure_top v = v \<and> reveal_top v = v"
    by (cases v) (simp_all add: obscure_top_def reveal_top_def)
  have d: "obscure_top (PStr s) = PStr (mangle s) \<and> reveal_top (PStr s) = PStr (unmangle s)"
    by (simp add: obscure_top_def reveal_top_def)
  from a b c d show ?thesis by blast
qed

text \<open>
  C6. The claim has every value that is not a string pass through a load unmodified. The
  code does not, for a file with the key \<open>__dict__\<close>: \<open>__setitem__\<close> makes the mapping
  loaded under that key the namespace of the instance, and the attribute it sets for
  every later entry is written into that mapping. The file \<open>__dict__: {a: 1}\<close>,
  \<open>s: olleh\<close>, \<open>n: 2\<close> loads with \<open>{a: 1, s: hello, n: 2}\<close> under \<open>__dict__\<close>, where
  the claim has \<open>{a: 1}\<close>.
\<close>

theorem load_rewrites_namespace_entry:
  "yaml_safe_load [(KStr (py ''__dict__''), PDict [(KStr (py ''a''), PInt 1)]),
                   (KStr (py ''s''), PStr (py ''olleh'')), (KStr (py ''n''), PInt 2)]
     = Some [(KStr (py ''__dict__''), PDict [(KStr (py ''a''), PInt 1)]),
             (KStr (py ''s''), PStr (py ''olleh'')), (KStr (py ''n''), PInt 2)]
   \<and> load (example_disk False
         [(KStr (py ''__dict__''), PDict [(KStr (py ''a''), PInt 1)]),
          (KStr (py ''s''), PStr (py ''olleh'')), (KStr (py ''n''), PInt 2)]) (py ''config.yaml'')
     = Inr \<lparr>entries =
              [(KStr (py ''__dict__''),
                PDict [(KStr (py ''a''), PInt 1), (KStr (py ''s''), PStr (py ''hello'')),
                       (KStr (py ''n''), PInt 2)]),
               (KStr (py ''s''), PStr (py ''hello'')), (KStr (py ''n''), PInt 2)],
            attrs = [(py ''a'', PInt 1), (py ''s'', PStr (py ''hello'')), (py ''n'', PInt 2)],
            shared = Some (KStr (py ''__dict__''))\<rparr>
   \<and> reveal_top (PDict [(KStr (py ''a''), PInt 1)]) = PDict [(KStr (py ''a''), PInt 1)]
   \<and> PDict [(KStr (py ''a''), PInt 1), (KStr (py ''s''), PStr (py ''hello'')),
             (KStr (py ''n''), PInt 2)] \<noteq> PDict [(KStr (py ''a''), PInt 1)]"
  by (simp add: load_def Config_init_empty open_r_def example_disk_def yaml_safe_load_def
      bound_method_def dict_contains_def setitem_def setattr_def unshare_def write_through_def
      isspace_def Let_def unmangle_rev reveal_top_def py_def)

section \<open>The round trip\<close>

lemma save_plain:
  "bound_method c (py ''items'') = None \<Longrightarrow> bound_method c (py ''_mangle'') = None \<Longrightarrow>
   save c fs path =
     (if open_denied fs path then (fs, Some OSError)
      else (fs\<lparr>contents := (contents fs)(path \<mapsto> map (\<lambda>e. (fst e, obscure_top (snd e))) (entries c))\<rparr>, None))"
  using save_items_plain [of c "fs\<lparr>contents := (contents fs)(path \<mapsto> [])\<rparr>" path "[]" "entries c"]
  by (simp add: save_def open_w_def)

lemma key_set_dict_setitem: "fst ` set (dict_setitem d k v) = insert k (fst ` set d)"
proof -
  have "set (map fst (dict_setitem d k v)) = insert k (set (map fst d))"
    unfolding keys_dict_setitem by auto
  then show ?thesis by simp
qed

lemma plain_key_not_namespace: "plain_key k \<Longrightarrow> \<not> namespace_key k"
  by (cases k) (simp_all add: plain_key_def namespace_key_def reserved_names_def)

lemma setitem_plain:
  assumes "plain_key k" and "\<not> dict_contains (attrs cfg) (py ''_unmangle'')"
    and "shared cfg = None"
  shows "\<exists>cfg1. setitem cfg k v = (cfg1, None) \<and> \<not> dict_contains (attrs cfg1) (py ''_unmangle'')
           \<and> shared cfg1 = None"
proof (cases k)
  case (KInt i)
  with assms show ?thesis by (simp add: setitem_def unshare_def)
next
  case (KStr s)
  with assms(1) have n: "sub_spaces s \<noteq> py ''__class__''" "sub_spaces s \<noteq> py ''__weakref__''"
    "sub_spaces s \<noteq> py ''__dict__''" "sub_spaces s \<noteq> py ''_unmangle''"
    by (auto simp: plain_key_def reserved_names_def)
  with KStr assms(2,3) show ?thesis
    by (simp add: setitem_def setattr_def unshare_def Let_def dict_contains_keys
        key_set_dict_setitem)
qed

lemma load_items_plain:
  "list_all plain_key (map fst items) \<Longrightarrow> \<not> dict_contains (attrs cfg) (py ''_unmangle'') \<Longrightarrow>
   shared cfg = None \<Longrightarrow> \<exists>cfg'. load_items cfg items = Inr cfg'"
proof (induction items arbitrary: cfg)
  case Nil
  then show ?case by simp
next
  case (Cons e items)
  obtain k v where e: "e = (k, v)" by (cases e)
  from Cons.prems e have pk: "plain_key k" and rest: "list_all plain_key (map fst items)"
    by simp_all
  from setitem_plain [OF pk Cons.prems(2,3), of "reveal_top v"]
  obtain cfg1 where s: "setitem cfg k (reveal_top v) = (cfg1, None)"
    and u: "\<not> dict_contains (attrs cfg1) (py ''_unmangle'')"
    and sh: "shared cfg1 = None" by blast
  from Cons.IH [OF rest u sh] obtain cfg' where l: "load_items cfg1 items = Inr cfg'" by blast
  have "load_items cfg (e # items) = load_items cfg1 items"
    using e s Cons.prems(2)
    by (cases v) (simp_all add: reveal_top_def bound_method_def)
  with l show ?case by simp
qed

lemma reveal_obscure: "reveal_top (obscure_top v) = v"
  by (cases v) (simp_all add: reveal_top_def obscure_top_def mangle_rev unmangle_rev)

text \<open>
  Where the round trip holds: the store has an entry, its file can be opened, neither
  \<open>items\<close> nor \<open>_mangle\<close> is shadowed by an instance attribute, every key is a plain
  one, and every value is one the YAML library gives back as it was dumped. Then \<open>load\<close>
  after \<open>save\<close> returns a store with the same entries, in the same order.
\<close>

lemma round_trip_nonempty:
  assumes ne: "entries c \<noteq> []"
    and dist: "distinct (map fst (entries c))"
    and plain: "list_all plain_key (map fst (entries c))"
    and flat: "list_all flat_value (map snd (entries c))"
    and items: "bound_method c (py ''items'') = None"
    and mang: "bound_method c (py ''_mangle'') = None"
    and wr: "\<not> open_denied fs path"
  shows "\<exists>cfg. load (fst (save c fs path)) path = Inr cfg \<and> entries cfg = entries c"
proof -
  let ?doc = "map (\<lambda>e. (fst e, obscure_top (snd e))) (entries c)"
  let ?fs = "fst (save c fs path)"
  have keys_doc: "map fst ?doc = map fst (entries c)" by (simp add: comp_def)
  have c: "contents ?fs path = Some ?doc"
    using wr by (simp add: save_plain [OF items mang])
  have dd: "distinct (map fst ?doc)" using dist by (simp only: keys_doc)
  have data: "dict_update [] ?doc = ?doc" using dd by (rule dict_update_id)
  have sl: "yaml_safe_load ?doc = Some ?doc"
    using ne data by (simp add: yaml_safe_load_def)
  have pl: "list_all plain_key (map fst ?doc)" using plain by (simp only: keys_doc)
  then have nn: "list_all (\<lambda>k. \<not> namespace_key k) (map fst ?doc)"
    by (rule list.pred_mono_strong) (rule plain_key_not_namespace)
  from load_items_plain [OF pl, of "\<lparr>entries = [], attrs = [], shared = None\<rparr>"]
  obtain cfg where l: "load_items \<lparr>entries = [], attrs = [], shared = None\<rparr> ?doc = Inr cfg"
    by (auto simp: dict_contains_def)
  have ld: "load ?fs path = Inr cfg"
    using c sl l by (simp add: load_def Config_init_empty open_r_def)
  from load_entries [OF c sl nn ld]
  have "entries cfg = map (\<lambda>e. (fst e, reveal_top (snd e))) ?doc" .
  then have "entries cfg = entries c"
    by (simp add: comp_def reveal_obscure)
  with ld show ?thesis by blast
qed

text \<open>
  C1. The round trip does not hold for every store: for the store with no entries
  \<open>save\<close> writes a file with no block, \<open>yaml.safe_load\<close> of it is \<open>None\<close>, and
  \<open>load\<close> raises \<open>AttributeError\<close> at \<open>data.items()\<close> instead of returning the empty
  store. The application reaches this by itself: a save while the only row is the
  \<open>new_key\<close> placeholder succeeds and leaves a file that \<open>load\<close> cannot read.
\<close>

theorem round_trip_empty_store_raises:
  "save \<lparr>entries = [], attrs = [], shared = None\<rparr> (example_disk False doc) (py ''config.yaml'')
     = (example_disk False [], None)
   \<and> load (example_disk False []) (py ''config.yaml'') = Inl AttributeError
   \<and> snd (on_save_button_pressed (example_app (example_disk False doc) cfg)
            [(py ''new_key'', [])] (py ''config.yaml'') True) = None
   \<and> load (disk_state (fst (on_save_button_pressed (example_app (example_disk False doc) cfg)
            [(py ''new_key'', [])] (py ''config.yaml'') True))) (py ''config.yaml'')
       = Inl AttributeError"
  by (simp add: save_fresh on_save_button_pressed_eq Let_def spec_reconcile_def load_def
      Config_init_empty open_r_def yaml_safe_load_def example_disk_def example_app_def fun_eq_iff)

end
